theory Spec2Isabelle
  imports Complex_Main
begin

section \<open>The chess library as the program uses it\<close>

text \<open>
  The program builds on the python-chess library.  Squares are the integers 0..63
  (\<open>chess.square(file, rank) = rank * 8 + file\<close>), a piece is a piece type with a colour,
  and a board carries a piece on some squares, the side to move and the stack of moves
  pushed so far.  The piece placement is modelled concretely, because Setup mode edits it
  square by square; the rules of chess (legal moves, pushing and popping a move, FEN and
  UCI text, game-end tests) are a parameter of the model, the record \<open>rules\<close> below, so
  that every theorem holds for whatever the library computes.
\<close>

type_synonym square = nat

datatype color = WHITE | BLACK

datatype piece_type = PAWN | KNIGHT | BISHOP | ROOK | QUEEN | KING

datatype piece = Piece (piece_type: piece_type) (color: color)

record chess_move =
  from_square :: square
  to_square :: square
  promotion :: "piece_type option"

text \<open>\<open>chess.Move(from_square, to_square)\<close>: no promotion piece.\<close>

definition chess_Move :: "square \<Rightarrow> square \<Rightarrow> chess_move" where
  "chess_Move f t = \<lparr>from_square = f, to_square = t, promotion = None\<rparr>"

record board =
  piece_map :: "square \<rightharpoonup> piece"
  turn :: color
  board_castling_rights :: "square set"
  ep_square :: "square option"
  halfmove_clock :: nat
  fullmove_number :: nat
  move_stack :: "chess_move list"

datatype error = TypeError | ValueError | IndexError | EngineError

definition piece_at :: "board \<Rightarrow> square \<Rightarrow> piece option" where
  "piece_at b sq = piece_map b sq"

text \<open>
  \<open>Board.remove_piece_at\<close> returns the piece that stood on the square (or \<open>None\<close>), empties
  the square and clears the move stack; \<open>Board.set_piece_at\<close> with \<open>None\<close> empties the
  square, with a piece it puts the piece there, and clears the move stack as well.
\<close>

definition remove_piece_at :: "board \<Rightarrow> square \<Rightarrow> board \<times> piece option" where
  "remove_piece_at b sq =
     (b\<lparr>piece_map := (piece_map b)(sq := None), move_stack := []\<rparr>, piece_map b sq)"

definition set_piece_at :: "board \<Rightarrow> square \<Rightarrow> piece option \<Rightarrow> board" where
  "set_piece_at b sq p = b\<lparr>piece_map := (piece_map b)(sq := p), move_stack := []\<rparr>"

text \<open>\<open>chess.Board()\<close>, the starting position, and \<open>chess.Board(fen=None)\<close>, the empty board.\<close>

definition back_rank :: "piece_type list" where
  "back_rank = [ROOK, KNIGHT, BISHOP, QUEEN, KING, BISHOP, KNIGHT, ROOK]"

definition starting_piece_map :: "square \<rightharpoonup> piece" where
  "starting_piece_map sq =
     (if sq < 8 then Some (Piece (back_rank ! sq) WHITE)
      else if sq < 16 then Some (Piece PAWN WHITE)
      else if sq < 48 then None
      else if sq < 56 then Some (Piece PAWN BLACK)
      else if sq < 64 then Some (Piece (back_rank ! (sq - 56)) BLACK)
      else None)"

definition Board :: board where
  "Board = \<lparr>piece_map = starting_piece_map, turn = WHITE,
            board_castling_rights = {0, 7, 56, 63}, ep_square = None,
            halfmove_clock = 0, fullmove_number = 1, move_stack = []\<rparr>"

definition Board_empty :: board where
  "Board_empty = \<lparr>piece_map = Map.empty, turn = WHITE,
            board_castling_rights = {}, ep_square = None,
            halfmove_clock = 0, fullmove_number = 1, move_stack = []\<rparr>"

text \<open>\<open>board.pieces(piece_type, color)\<close>: the squares holding such a piece, in order.\<close>

definition pieces :: "board \<Rightarrow> piece_type \<Rightarrow> color \<Rightarrow> square list" where
  "pieces b pt c = filter (\<lambda>sq. piece_map b sq = Some (Piece pt c)) [0..<64]"

text \<open>
  The part of the library that knows the rules of chess.  \<open>legal_moves\<close> enumerates
  \<open>board.legal_moves\<close> (\<open>move in board.legal_moves\<close> is membership in it), \<open>push\<close> and \<open>pop\<close>
  are \<open>board.push\<close> and \<open>board.pop\<close> (which raises \<open>IndexError\<close> on an empty move stack),
  \<open>fen\<close> is \<open>board.fen()\<close>, \<open>uci\<close> is \<open>str(move)\<close> and \<open>from_uci\<close> is
  \<open>chess.Move.from_uci\<close> (which raises \<open>ValueError\<close> on text that is no move).
\<close>

record rules =
  legal_moves :: "board \<Rightarrow> chess_move list"
  push :: "board \<Rightarrow> chess_move \<Rightarrow> board"
  pop :: "board \<Rightarrow> error + board"
  fen :: "board \<Rightarrow> string"
  uci :: "chess_move \<Rightarrow> string"
  from_uci :: "string \<Rightarrow> error + chess_move"
  is_checkmate :: "board \<Rightarrow> bool"
  is_stalemate :: "board \<Rightarrow> bool"
  is_insufficient_material :: "board \<Rightarrow> bool"

section \<open>eval.py\<close>

definition material :: "board \<Rightarrow> int" where
  "material b =
     sum_list [int (length (pieces b pt c)) * v.
               (pt, v) \<leftarrow> [(PAWN, 100), (KNIGHT, 300), (BISHOP, 300), (ROOK, 500), (QUEEN, 900)],
               c \<leftarrow> [WHITE, BLACK]]"

definition evaluate_board :: "rules \<Rightarrow> board \<Rightarrow> int" where
  "evaluate_board R b =
     (if is_checkmate R b then (if turn b = WHITE then - 9999 else 9999)
      else if is_stalemate R b \<or> is_insufficient_material R b then 0
      else (if turn b = WHITE then material b else - material b))"

text \<open>The number of squares of the board on which a piece of the given type and colour stands.\<close>

definition piece_count :: "board \<Rightarrow> piece_type \<Rightarrow> color \<Rightarrow> int" where
  "piece_count b pt c = int (card {sq. sq < 64 \<and> piece_at b sq = Some (Piece pt c)})"

section \<open>config.py\<close>

definition BOARD_SIZE :: int where "BOARD_SIZE = 640"
definition SQUARE_SIZE :: int where "SQUARE_SIZE = BOARD_SIZE div 8"
definition BOARD_OFFSET_X :: int where "BOARD_OFFSET_X = 40"
definition BOARD_OFFSET_Y :: int where "BOARD_OFFSET_Y = 40"
definition CONTROL_PANEL_X :: int where "CONTROL_PANEL_X = BOARD_SIZE + BOARD_OFFSET_X + 20"

datatype mode = SETUP_MODE | ANALYSIS_MODE | PLAY_MODE

section \<open>chess\_predictor.py: the state of a ChessPredictor\<close>

text \<open>
  The keys of \<open>self.buttons\<close>, in the order \<open>create_ui_elements\<close> inserts them, and
  pygame's rectangles: \<open>Rect(left, top, width, height).collidepoint\<close> holds of the points
  with \<open>left \<le> x < left + width\<close> and \<open>top \<le> y < top + height\<close>.
\<close>

datatype button =
    setup_mode | analysis_mode | play_mode
  | white_to_move | black_to_move
  | white_kingside | white_queenside | black_kingside | black_queenside
  | clear_board | reset_position | get_best_move | toggle_vs_ai

type_synonym rect = "int \<times> int \<times> int \<times> int"

definition collidepoint :: "rect \<Rightarrow> int \<times> int \<Rightarrow> bool" where
  "collidepoint r pos =
     (case r of (rleft, rtop, rwidth, rheight) \<Rightarrow>
        rleft \<le> fst pos \<and> fst pos < rleft + rwidth \<and> rtop \<le> snd pos \<and> snd pos < rtop + rheight)"

definition buttons :: "(button \<times> rect) list" where
  "buttons =
     [(setup_mode, (CONTROL_PANEL_X + 10, 40, 80, 25)),
      (analysis_mode, (CONTROL_PANEL_X + 95, 40, 80, 25)),
      (play_mode, (CONTROL_PANEL_X + 180, 40, 80, 25)),
      (white_to_move, (CONTROL_PANEL_X + 27, 100, 15, 15)),
      (black_to_move, (CONTROL_PANEL_X + 27, 125, 15, 15)),
      (white_kingside, (CONTROL_PANEL_X + 20, 170, 15, 15)),
      (white_queenside, (CONTROL_PANEL_X + 20, 190, 15, 15)),
      (black_kingside, (CONTROL_PANEL_X + 20, 210, 15, 15)),
      (black_queenside, (CONTROL_PANEL_X + 20, 230, 15, 15)),
      (clear_board, (CONTROL_PANEL_X + 10, 270, 100, 25)),
      (reset_position, (CONTROL_PANEL_X + 120, 270, 100, 25)),
      (get_best_move, (CONTROL_PANEL_X + 230, 270, 100, 25)),
      (toggle_vs_ai, (CONTROL_PANEL_X + 10, 300, 100, 25))]"

text \<open>
  An entry of the list \<open>Stockfish.get_top_moves\<close> returns, with its three keys: the
  move, and either a centipawn score or a mate distance, the other being \<open>None\<close>.  The
  program reads \<open>Move\<close> and \<open>Centipawn\<close> and never reads \<open>Mate\<close>.  The second record is
  an entry of the list the program stores in \<open>self.stockfish_comparison\<close>.
\<close>

record top_move =
  Move :: string
  Centipawn :: "int option"
  Mate :: "int option"

record formatted_move =
  move :: string
  centipawn :: "int option"
  mate :: "int option"

record comparison =
  user_rank :: "nat option"
  top_moves :: "formatted_move list"
  user_move :: string

text \<open>
  A background thread started with \<open>threading.Thread(target=..., daemon=True).start()\<close>.
  A worker suspends only while the engine computes \<open>get_top_moves\<close>; the model runs the
  code before that call as one step and the code after it as another.  A started worker
  has not run yet; a waiting worker has sent the FEN it carries to the engine.  A
  comparison worker also carries its argument \<open>user_move\<close>.
\<close>

datatype thread =
    ai_worker_started
  | ai_worker_waiting string
  | comparison_worker_started string
  | comparison_worker_waiting string string

text \<open>
  The fields \<open>__init__\<close> sets.  \<open>stockfish_ai\<close> is \<open>True\<close> when the field holds an engine and
  \<open>False\<close> when it is \<open>None\<close>; \<open>castling_rights\<close> is the dictionary keyed by four of the
  button names; \<open>last_ai_eval\<close> is the quotient \<open>centipawns / 100.0\<close>, kept exact; \<open>threads\<close>
  lists the workers that were started and have not finished.
\<close>

record predictor =
  board :: board
  selected_piece :: "square option"
  dragging :: bool
  valid_moves :: "square set"
  current_mode :: mode
  active_color :: color
  castling_rights :: "button \<rightharpoonup> bool"
  play_vs_ai :: bool
  stockfish_ai :: bool
  ai_thinking :: bool
  last_ai_move :: "string option"
  last_ai_eval :: "rat option"
  stockfish_comparison :: "comparison option"
  ai_suggested_square :: "square option"
  move_history :: "chess_move list"
  position_history :: "string list"
  threads :: "thread list"

definition init :: "bool \<Rightarrow> predictor" where
  "init engine =
     \<lparr>board = Board, selected_piece = None, dragging = False, valid_moves = {},
      current_mode = SETUP_MODE, active_color = WHITE,
      castling_rights = [white_kingside \<mapsto> True, white_queenside \<mapsto> True,
                         black_kingside \<mapsto> True, black_queenside \<mapsto> True],
      play_vs_ai = False, stockfish_ai = engine, ai_thinking = False,
      last_ai_move = None, last_ai_eval = None, stockfish_comparison = None,
      ai_suggested_square = None, move_history = [], position_history = [],
      threads = []\<rparr>"

section \<open>chess\_predictor.py: the operations of the interaction thread\<close>

definition get_square_from_pos :: "int \<times> int \<Rightarrow> square option" where
  "get_square_from_pos pos =
     (let board_x = fst pos - BOARD_OFFSET_X;
          board_y = snd pos - BOARD_OFFSET_Y
      in if board_x < 0 \<or> board_x \<ge> BOARD_SIZE \<or> board_y < 0 \<or> board_y \<ge> BOARD_SIZE
         then None
         else (let file = board_x div SQUARE_SIZE;
                   rank = 7 - (board_y div SQUARE_SIZE)
               in Some (nat (rank * 8 + file))))"

text \<open>
  \<open>is_valid_move\<close>.  The source square is \<open>self.selected_piece\<close>, which may be \<open>None\<close>: in
  Setup mode it is not looked at; in the other modes \<open>chess.Move(None, to_square) in
  self.board.legal_moves\<close> is no legal move (the library returns \<open>False\<close> or raises, and the
  bare \<open>except\<close> turns a raise into \<open>False\<close>).
\<close>

definition is_valid_move :: "rules \<Rightarrow> predictor \<Rightarrow> square option \<Rightarrow> square \<Rightarrow> bool" where
  "is_valid_move R s from_sq to_sq =
     (if current_mode s = SETUP_MODE then
        (case piece_at (board s) to_sq of
           None \<Rightarrow> True
         | Some target_piece \<Rightarrow> if piece_type target_piece = KING then False else True)
      else
        (case from_sq of
           None \<Rightarrow> False
         | Some f \<Rightarrow> chess_Move f to_sq \<in> set (legal_moves R (board s))))"

definition get_stockfish_comparison :: "predictor \<Rightarrow> string \<Rightarrow> predictor" where
  "get_stockfish_comparison s um =
     (if \<not> stockfish_ai s then s
      else s\<lparr>threads := threads s @ [comparison_worker_started um]\<rparr>)"

definition make_move :: "rules \<Rightarrow> predictor \<Rightarrow> chess_move \<Rightarrow> predictor \<times> bool" where
  "make_move R s m =
     (if m \<in> set (legal_moves R (board s)) then
        (let s1 = s\<lparr>move_history := move_history s @ [m]\<rparr>;
             s2 = s1\<lparr>position_history := position_history s1 @ [fen R (board s1)]\<rparr>;
             s3 = s2\<lparr>board := push R (board s2) m\<rparr>;
             s4 = (if stockfish_ai s3 then get_stockfish_comparison s3 (uci R m) else s3)
         in (s4, True))
      else (s, False))"

text \<open>
  \<open>get_ai_move\<close>.  \<open>time.sleep(0.1)\<close> changes no field, and the worker is only started here:
  its body runs in \<open>run_thread\<close> below.
\<close>

definition get_ai_move :: "predictor \<Rightarrow> predictor" where
  "get_ai_move s =
     (if \<not> stockfish_ai s then
        s\<lparr>last_ai_move := Some ''No AI available'', last_ai_eval := None\<rparr>
      else
        (let s1 = (if ai_thinking s then s\<lparr>ai_thinking := False\<rparr> else s)
         in s1\<lparr>threads := threads s1 @ [ai_worker_started]\<rparr>))"

text \<open>
  \<open>handle_button_click\<close>: the first button whose rectangle holds the point decides.  The
  three names ending in \<open>_mode\<close> select the mode that \<open>replace('_mode', '')\<close> leaves.
\<close>

fun mode_of_button :: "button \<Rightarrow> mode option" where
  "mode_of_button setup_mode = Some SETUP_MODE"
| "mode_of_button analysis_mode = Some ANALYSIS_MODE"
| "mode_of_button play_mode = Some PLAY_MODE"
| "mode_of_button _ = None"

definition handle_button_click :: "predictor \<Rightarrow> int \<times> int \<Rightarrow> predictor \<times> bool" where
  "handle_button_click s pos =
     (case find (\<lambda>(button_name, button_rect). collidepoint button_rect pos) buttons of
        None \<Rightarrow> (s, False)
      | Some (button_name, button_rect) \<Rightarrow>
          ((case mode_of_button button_name of
              Some m \<Rightarrow> s\<lparr>current_mode := m, valid_moves := {}\<rparr>
            | None \<Rightarrow>
                if button_name = white_to_move then
                  s\<lparr>active_color := WHITE, board := (board s)\<lparr>turn := WHITE\<rparr>\<rparr>
                else if button_name = black_to_move then
                  s\<lparr>active_color := BLACK, board := (board s)\<lparr>turn := BLACK\<rparr>\<rparr>
                else
                  (case castling_rights s button_name of
                     Some v \<Rightarrow> s\<lparr>castling_rights := (castling_rights s)(button_name \<mapsto> \<not> v)\<rparr>
                   | None \<Rightarrow>
                       if button_name = clear_board then
                         s\<lparr>board := Board_empty, move_history := [], position_history := [],
                           stockfish_comparison := None, last_ai_move := None\<rparr>
                       else if button_name = reset_position then
                         s\<lparr>board := Board, move_history := [], position_history := [],
                           stockfish_comparison := None, last_ai_move := None\<rparr>
                       else if button_name = get_best_move then get_ai_move s
                       else if button_name = toggle_vs_ai then
                         s\<lparr>play_vs_ai := \<not> play_vs_ai s\<rparr>
                       else s)),
           True))"

text \<open>
  The two mouse branches of the event loop in \<open>run\<close>, for one event each.  A release ends
  with the three assignments that drop the selection (\<open>clear_drag\<close>).  In Setup mode
  \<open>remove_piece_at(None)\<close> raises \<open>TypeError\<close>, which nothing in \<open>run\<close> catches.
\<close>

definition clear_drag :: "predictor \<Rightarrow> predictor" where
  "clear_drag s = s\<lparr>dragging := False, selected_piece := None, valid_moves := {}\<rparr>"

definition mouse_button_down :: "rules \<Rightarrow> predictor \<Rightarrow> int \<Rightarrow> int \<times> int \<Rightarrow> predictor" where
  "mouse_button_down R s btn pos =
     (if btn = 1 then
        (if fst pos \<ge> CONTROL_PANEL_X then fst (handle_button_click s pos)
         else
           (case get_square_from_pos pos of
              None \<Rightarrow> s
            | Some square \<Rightarrow>
                (if current_mode s = SETUP_MODE then
                   (case piece_at (board s) square of
                      Some p \<Rightarrow> s\<lparr>selected_piece := Some square, dragging := True\<rparr>
                    | None \<Rightarrow> s)
                 else
                   (case piece_at (board s) square of
                      Some p \<Rightarrow>
                        if color p = turn (board s) then
                          s\<lparr>selected_piece := Some square, dragging := True,
                            valid_moves :=
                              set (map to_square
                                (filter (\<lambda>m. from_square m = square) (legal_moves R (board s))))\<rparr>
                        else s\<lparr>selected_piece := None, valid_moves := {}\<rparr>
                    | None \<Rightarrow> s\<lparr>selected_piece := None, valid_moves := {}\<rparr>))))
      else s)"

definition mouse_button_up :: "rules \<Rightarrow> predictor \<Rightarrow> int \<Rightarrow> int \<times> int \<Rightarrow> error + predictor" where
  "mouse_button_up R s btn pos =
     (if btn = 1 \<and> dragging s then
        (case get_square_from_pos pos of
           None \<Rightarrow> Inr (clear_drag s)
         | Some target_square \<Rightarrow>
             if is_valid_move R s (selected_piece s) target_square then
               (case selected_piece s of
                  None \<Rightarrow> Inl TypeError
                | Some sel \<Rightarrow>
                    if current_mode s = SETUP_MODE then
                      (let (b1, piece) = remove_piece_at (board s) sel;
                           (b2, removed) = remove_piece_at b1 target_square;
                           b3 = set_piece_at b2 target_square piece
                       in Inr (clear_drag (s\<lparr>board := b3\<rparr>)))
                    else
                      (let (s1, ok) = make_move R s (chess_Move sel target_square)
                       in if ok then
                            (if current_mode s1 = PLAY_MODE \<and> play_vs_ai s1
                                \<and> turn (board s1) \<noteq> active_color s1
                             then Inr (clear_drag (get_ai_move s1))
                             else Inr (clear_drag s1))
                          else Inr (clear_drag s1)))
             else Inr (clear_drag s))
      else Inr s)"

section \<open>chess\_predictor.py: the background workers\<close>

text \<open>
  The engine, as a worker meets it: \<open>set_fen_position(fen)\<close> followed by
  \<open>get_top_moves(n)\<close> answers with a ranked list, or raises.  The search depth the worker
  sets beforehand only influences what the engine answers.
\<close>

type_synonym stockfish = "string \<Rightarrow> nat \<Rightarrow> error + top_move list"

text \<open>
  \<open>ai_worker\<close>, the closure of \<open>get_ai_move\<close>.  Up to the engine call it raises the
  \<open>ai_thinking\<close> flag and sends the FEN of the board as it is then (\<open>ai_worker_submit\<close>).
  With the answer it publishes the suggestion and, in Play mode against the engine, plays
  it if it is legal on the board as it is by then (\<open>ai_worker_publish\<close>); the \<open>finally\<close>
  clause lowers the flag on every path.
\<close>

definition ai_worker_submit :: "rules \<Rightarrow> predictor \<Rightarrow> predictor \<times> string" where
  "ai_worker_submit R s = (s\<lparr>ai_thinking := True\<rparr>, fen R (board s))"

definition ai_worker_publish :: "rules \<Rightarrow> error + top_move list \<Rightarrow> predictor \<Rightarrow> predictor" where
  "ai_worker_publish R answer s =
     (case answer of
        Inl e \<Rightarrow> s\<lparr>last_ai_move := Some ''AI Error'', last_ai_eval := None, ai_thinking := False\<rparr>
      | Inr tms \<Rightarrow>
          if tms = [] then
            s\<lparr>last_ai_move := Some ''No moves'', last_ai_eval := None, ai_thinking := False\<rparr>
          else
            (let move_index = min 9 (length tms - 1);
                 selected_move = tms ! move_index;
                 move_uci = Move selected_move;
                 centipawns = (case Centipawn selected_move of
                                 Some c \<Rightarrow> if c \<noteq> 0 then c else 0
                               | None \<Rightarrow> 0);
                 eval_pawns = (of_int centipawns :: rat) / 100;
                 s1 = s\<lparr>last_ai_move := Some move_uci, last_ai_eval := Some eval_pawns\<rparr>;
                 s2 = s1\<lparr>ai_suggested_square :=
                          (case from_uci R move_uci of
                             Inr ai_move_obj \<Rightarrow> Some (to_square ai_move_obj)
                           | Inl e \<Rightarrow> None)\<rparr>;
                 s3 = (if current_mode s2 = PLAY_MODE \<and> play_vs_ai s2 then
                         (case from_uci R move_uci of
                            Inr ai_move \<Rightarrow>
                              if ai_move \<in> set (legal_moves R (board s2))
                              then fst (make_move R s2 ai_move) else s2
                          | Inl e \<Rightarrow> s2)
                       else s2)
             in s3\<lparr>ai_thinking := False\<rparr>))"

text \<open>
  \<open>comparison_worker\<close>, the closure of \<open>get_stockfish_comparison\<close>.  It pops the last move
  from a copy of the board and sends that position; any exception ends it with a printed
  line and no store.  The loop over \<open>enumerate(top_moves)\<close> is \<open>find_user_rank\<close>, started
  at index 0.
\<close>

fun find_user_rank :: "top_move list \<Rightarrow> string \<Rightarrow> nat \<Rightarrow> nat option" where
  "find_user_rank [] um i = None"
| "find_user_rank (move_data # rest) um i =
     (if Move move_data = um then Some (i + 1) else find_user_rank rest um (i + 1))"

definition comparison_worker_submit :: "rules \<Rightarrow> predictor \<Rightarrow> error + string" where
  "comparison_worker_submit R s =
     (case pop R (board s) of
        Inl e \<Rightarrow> Inl e
      | Inr temp_board \<Rightarrow> Inr (fen R temp_board))"

definition comparison_worker_publish ::
  "error + top_move list \<Rightarrow> string \<Rightarrow> predictor \<Rightarrow> predictor" where
  "comparison_worker_publish answer um s =
     (case answer of
        Inl e \<Rightarrow> s
      | Inr tms \<Rightarrow>
          s\<lparr>stockfish_comparison :=
              Some \<lparr>user_rank = find_user_rank tms um 0,
                    top_moves = map (\<lambda>move_data.
                        \<lparr>move = Move move_data, centipawn = Centipawn move_data, mate = None\<rparr>) tms,
                    user_move = um\<rparr>\<rparr>)"

text \<open>
  One step of the worker at position \<open>i\<close> of the thread list: a started worker runs up to
  its engine call, a waiting worker receives the engine's answer for the FEN it sent and
  runs to its end.  Which worker steps when is up to the scheduler, so a run of the
  program is any sequence of interaction-thread operations and worker steps.
\<close>

definition remove_nth :: "nat \<Rightarrow> 'a list \<Rightarrow> 'a list" where
  "remove_nth i xs = take i xs @ drop (Suc i) xs"

definition run_thread :: "rules \<Rightarrow> stockfish \<Rightarrow> nat \<Rightarrow> predictor \<Rightarrow> predictor" where
  "run_thread R sf i s =
     (if i < length (threads s) then
        (case threads s ! i of
           ai_worker_started \<Rightarrow>
             (let (s1, f) = ai_worker_submit R s
              in s1\<lparr>threads := (threads s1)[i := ai_worker_waiting f]\<rparr>)
         | ai_worker_waiting f \<Rightarrow>
             ai_worker_publish R (sf f 12) (s\<lparr>threads := remove_nth i (threads s)\<rparr>)
         | comparison_worker_started um \<Rightarrow>
             (case comparison_worker_submit R s of
                Inl e \<Rightarrow> s\<lparr>threads := remove_nth i (threads s)\<rparr>
              | Inr f \<Rightarrow> s\<lparr>threads := (threads s)[i := comparison_worker_waiting f um]\<rparr>)
         | comparison_worker_waiting f um \<Rightarrow>
             comparison_worker_publish (sf f 5) um (s\<lparr>threads := remove_nth i (threads s)\<rparr>))
      else s)"

text \<open>
  A run of the program: the event loop of \<open>run\<close> takes the mouse events one by one, and
  between them the scheduler lets workers step.  An exception that leaves a handler ends
  the run.
\<close>

datatype event =
    MOUSEBUTTONDOWN int "int \<times> int"
  | MOUSEBUTTONUP int "int \<times> int"
  | thread_step nat

fun run :: "rules \<Rightarrow> stockfish \<Rightarrow> event list \<Rightarrow> predictor \<Rightarrow> error + predictor" where
  "run R sf [] s = Inr s"
| "run R sf (MOUSEBUTTONDOWN btn pos # es) s = run R sf es (mouse_button_down R s btn pos)"
| "run R sf (MOUSEBUTTONUP btn pos # es) s =
     (case mouse_button_up R s btn pos of
        Inl e \<Rightarrow> Inl e
      | Inr s' \<Rightarrow> run R sf es s')"
| "run R sf (thread_step i # es) s = run R sf es (run_thread R sf i s)"

section \<open>functional\_chessboard.py\<close>

record chess_gui =
  gui_board :: board
  gui_selected_piece :: "square option"
  gui_dragging :: bool
  gui_setup_mode :: bool
  gui_valid_moves :: "square set"

text \<open>\<open>ChessGUI.is_valid_move\<close>; \<open>moving_piece\<close> is read and not used.\<close>

definition ChessGUI_is_valid_move :: "rules \<Rightarrow> chess_gui \<Rightarrow> square \<Rightarrow> square \<Rightarrow> bool" where
  "ChessGUI_is_valid_move R g from_sq to_sq =
     (if gui_setup_mode g then
        (let target_piece = piece_at (gui_board g) to_sq;
             moving_piece = piece_at (gui_board g) from_sq
         in case target_piece of
              None \<Rightarrow> True
            | Some tp \<Rightarrow> if piece_type tp = KING then False else True)
      else chess_Move from_sq to_sq \<in> set (legal_moves R (gui_board g)))"

section \<open>A small rules library and engine for concrete runs\<close>

text \<open>
  The theorems below hold for every rules library and every engine.  To run the program
  on concrete inputs, this section fixes a small stand-in: the only legal moves are
  single steps of pawns from their starting rank onto an empty square, a position is
  written as its 64 squares followed by the side to move, and the engine knows two
  positions.
\<close>

definition other :: "color \<Rightarrow> color" where
  "other c = (if c = WHITE then BLACK else WHITE)"

definition toy_legal_moves :: "board \<Rightarrow> chess_move list" where
  "toy_legal_moves b =
     (if turn b = WHITE then
        [chess_Move sq (sq + 8). sq \<leftarrow> [8..<16],
           piece_map b sq = Some (Piece PAWN WHITE) \<and> piece_map b (sq + 8) = None]
      else
        [chess_Move sq (sq - 8). sq \<leftarrow> [48..<56],
           piece_map b sq = Some (Piece PAWN BLACK) \<and> piece_map b (sq - 8) = None])"

definition toy_push :: "board \<Rightarrow> chess_move \<Rightarrow> board" where
  "toy_push b m =
     b\<lparr>piece_map := (piece_map b)(from_square m := None, to_square m := piece_map b (from_square m)),
       turn := other (turn b),
       move_stack := move_stack b @ [m]\<rparr>"

definition toy_pop :: "board \<Rightarrow> error + board" where
  "toy_pop b =
     (case rev (move_stack b) of
        [] \<Rightarrow> Inl IndexError
      | m # ms \<Rightarrow>
          Inr (b\<lparr>piece_map := (piece_map b)(to_square m := None, from_square m := piece_map b (to_square m)),
                 turn := other (turn b),
                 move_stack := rev ms\<rparr>))"

fun piece_symbol :: "piece \<Rightarrow> char" where
  "piece_symbol (Piece PAWN WHITE) = CHR ''P''"
| "piece_symbol (Piece KNIGHT WHITE) = CHR ''N''"
| "piece_symbol (Piece BISHOP WHITE) = CHR ''B''"
| "piece_symbol (Piece ROOK WHITE) = CHR ''R''"
| "piece_symbol (Piece QUEEN WHITE) = CHR ''Q''"
| "piece_symbol (Piece KING WHITE) = CHR ''K''"
| "piece_symbol (Piece PAWN BLACK) = CHR ''p''"
| "piece_symbol (Piece KNIGHT BLACK) = CHR ''n''"
| "piece_symbol (Piece BISHOP BLACK) = CHR ''b''"
| "piece_symbol (Piece ROOK BLACK) = CHR ''r''"
| "piece_symbol (Piece QUEEN BLACK) = CHR ''q''"
| "piece_symbol (Piece KING BLACK) = CHR ''k''"

definition toy_fen :: "board \<Rightarrow> string" where
  "toy_fen b =
     map (\<lambda>sq. case piece_map b sq of None \<Rightarrow> CHR ''.'' | Some p \<Rightarrow> piece_symbol p) [0..<64]
     @ (if turn b = WHITE then '' w'' else '' b'')"

definition square_name :: "square \<Rightarrow> string" where
  "square_name sq = [''abcdefgh'' ! (sq mod 8), ''12345678'' ! (sq div 8)]"

definition toy_uci :: "chess_move \<Rightarrow> string" where
  "toy_uci m = square_name (from_square m) @ square_name (to_square m)"

fun char_index :: "char \<Rightarrow> string \<Rightarrow> nat option" where
  "char_index c [] = None"
| "char_index c (d # ds) =
     (if c = d then Some 0 else map_option Suc (char_index c ds))"

definition toy_from_uci :: "string \<Rightarrow> error + chess_move" where
  "toy_from_uci str =
     (case str of
        [f1, r1, f2, r2] \<Rightarrow>
          (case (char_index f1 ''abcdefgh'', char_index r1 ''12345678'',
                 char_index f2 ''abcdefgh'', char_index r2 ''12345678'') of
             (Some a, Some b, Some c, Some d) \<Rightarrow> Inr (chess_Move (b * 8 + a) (d * 8 + c))
           | _ \<Rightarrow> Inl ValueError)
      | _ \<Rightarrow> Inl ValueError)"

definition toy_rules :: rules where
  "toy_rules =
     \<lparr>legal_moves = toy_legal_moves, push = toy_push, pop = toy_pop, fen = toy_fen,
      uci = toy_uci, from_uci = toy_from_uci,
      is_checkmate = (\<lambda>b. False), is_stalemate = (\<lambda>b. False),
      is_insufficient_material = (\<lambda>b. False)\<rparr>"

definition e2e3 :: chess_move where "e2e3 = chess_Move 12 20"

definition toy_stockfish :: stockfish where
  "toy_stockfish f n =
     (if f = toy_fen Board then
        Inr (take n [\<lparr>Move = ''d2d3'', Centipawn = Some 30, Mate = None\<rparr>,
                     \<lparr>Move = ''e2e3'', Centipawn = Some 25, Mate = None\<rparr>])
      else if f = toy_fen (toy_push Board e2e3) then
        Inr (take n [\<lparr>Move = ''e7e6'', Centipawn = Some (- 20), Mate = None\<rparr>,
                     \<lparr>Move = ''d7d6'', Centipawn = Some (- 25), Mate = None\<rparr>])
      else Inr [])"

text \<open>
  Two states reached from the initial one by mouse events alone: the white pawn on e2
  (square 12) is held in Setup mode, and the same after a click on the Play button.
\<close>

definition setup_e2_held :: predictor where
  "setup_e2_held = mouse_button_down toy_rules (init False) 1 (365, 525)"

definition play_e2_held :: predictor where
  "play_e2_held =
     mouse_button_down toy_rules (mouse_button_down toy_rules (init False) 1 (890, 50)) 1 (365, 525)"

text \<open>
  Further inputs for concrete runs.  In \<open>held_square_emptied\<close> the user, in Setup mode,
  has dragged the pawn from e2 to e3 (square 20), pressed on it again and, still holding
  it, pressed the Reset button: e3 is held and empty.  Then a \<open>ChessGUI\<close> in its initial
  state, and the events of asking for the best move, letting the worker run to its end
  and then clicking the Analysis button.
\<close>

definition held_square_emptied :: predictor where
  "held_square_emptied =
     projr (run toy_rules toy_stockfish
       [MOUSEBUTTONDOWN 1 (365, 525), MOUSEBUTTONUP 1 (365, 445),
        MOUSEBUTTONDOWN 1 (365, 445), MOUSEBUTTONDOWN 1 (830, 280)] (init False))"

definition gui_start :: chess_gui where
  "gui_start = \<lparr>gui_board = Board, gui_selected_piece = None, gui_dragging = False,
                 gui_setup_mode = True, gui_valid_moves = {}\<rparr>"

definition best_move_then_analysis :: "event list" where
  "best_move_then_analysis =
     [MOUSEBUTTONDOWN 1 (940, 280), MOUSEBUTTONUP 1 (940, 280), thread_step 0, thread_step 0,
      MOUSEBUTTONDOWN 1 (800, 50)]"



definition stale_run :: "event list" where
  "stale_run =
     [MOUSEBUTTONDOWN 1 (940, 280), MOUSEBUTTONUP 1 (940, 280), thread_step 0,
      MOUSEBUTTONDOWN 1 (800, 50), MOUSEBUTTONUP 1 (800, 50),
      MOUSEBUTTONDOWN 1 (365, 525), MOUSEBUTTONUP 1 (365, 445),
      MOUSEBUTTONDOWN 1 (940, 280), MOUSEBUTTONUP 1 (940, 280), thread_step 2,
      thread_step 0]"

definition stale_play_run :: "event list" where
  "stale_play_run =
     [MOUSEBUTTONDOWN 1 (890, 50), MOUSEBUTTONUP 1 (890, 50),
      MOUSEBUTTONDOWN 1 (720, 310), MOUSEBUTTONUP 1 (720, 310),
      MOUSEBUTTONDOWN 1 (365, 525), MOUSEBUTTONUP 1 (365, 445), thread_step 1,
      MOUSEBUTTONDOWN 1 (45, 125), MOUSEBUTTONUP 1 (45, 205),
      MOUSEBUTTONDOWN 1 (285, 525), MOUSEBUTTONUP 1 (285, 445), thread_step 4,
      thread_step 1]"

definition no_moves_run :: "event list" where
  "no_moves_run =
     [MOUSEBUTTONDOWN 1 (720, 280), MOUSEBUTTONUP 1 (720, 280),
      MOUSEBUTTONDOWN 1 (940, 280), MOUSEBUTTONUP 1 (940, 280), thread_step 0]"

definition waiting_on_empty_board :: predictor where
  "waiting_on_empty_board = projr (run toy_rules toy_stockfish no_moves_run (init True))"

section \<open>The material evaluation\<close>

lemma length_pieces: "int (length (pieces b pt c)) = piece_count b pt c"
proof -
  have "distinct (pieces b pt c)"
    by (simp add: pieces_def)
  then have "length (pieces b pt c) = card (set (pieces b pt c))"
    by (simp add: distinct_card)
  also have "set (pieces b pt c) = {sq. sq < 64 \<and> piece_at b sq = Some (Piece pt c)}"
    by (auto simp: pieces_def piece_at_def)
  finally show ?thesis
    by (simp add: piece_count_def)
qed

lemma material_both_colors:
  "material b =
     100 * (piece_count b PAWN WHITE + piece_count b PAWN BLACK)
   + 300 * (piece_count b KNIGHT WHITE + piece_count b KNIGHT BLACK)
   + 300 * (piece_count b BISHOP WHITE + piece_count b BISHOP BLACK)
   + 500 * (piece_count b ROOK WHITE + piece_count b ROOK BLACK)
   + 900 * (piece_count b QUEEN WHITE + piece_count b QUEEN BLACK)"
  by (simp add: material_def length_pieces)

lemma material_Board: "material Board = 7800"
  by code_simp

text \<open>
  C10.  On a board that is not checkmate, stalemate or insufficient material,
  \<open>evaluate_board\<close> returns the material of both colours added together (pawn 100, knight
  300, bishop 300, rook 500, queen 900 for every such piece, white or black) when white is
  to move, and the negation of that sum when black is to move.  For the starting position
  it returns 7800.
\<close>

theorem evaluate_board_adds_both_colors:
  "(\<not> is_checkmate R b \<and> \<not> is_stalemate R b \<and> \<not> is_insufficient_material R b \<longrightarrow>
      evaluate_board R b =
        (let total =
             100 * (piece_count b PAWN WHITE + piece_count b PAWN BLACK)
           + 300 * (piece_count b KNIGHT WHITE + piece_count b KNIGHT BLACK)
           + 300 * (piece_count b BISHOP WHITE + piece_count b BISHOP BLACK)
           + 500 * (piece_count b ROOK WHITE + piece_count b ROOK BLACK)
           + 900 * (piece_count b QUEEN WHITE + piece_count b QUEEN BLACK)
         in if turn b = WHITE then total else - total))
   \<and> (\<not> is_checkmate R Board \<and> \<not> is_stalemate R Board \<and> \<not> is_insufficient_material R Board \<longrightarrow>
      evaluate_board R Board = 7800)"
proof (intro conjI impI)
  assume "\<not> is_checkmate R b \<and> \<not> is_stalemate R b \<and> \<not> is_insufficient_material R b"
  then have "evaluate_board R b = (if turn b = WHITE then material b else - material b)"
    by (simp add: evaluate_board_def)
  then show "evaluate_board R b =
        (let total =
             100 * (piece_count b PAWN WHITE + piece_count b PAWN BLACK)
           + 300 * (piece_count b KNIGHT WHITE + piece_count b KNIGHT BLACK)
           + 300 * (piece_count b BISHOP WHITE + piece_count b BISHOP BLACK)
           + 500 * (piece_count b ROOK WHITE + piece_count b ROOK BLACK)
           + 900 * (piece_count b QUEEN WHITE + piece_count b QUEEN BLACK)
         in if turn b = WHITE then total else - total)"
    unfolding Let_def material_both_colors [symmetric] .
next
  assume "\<not> is_checkmate R Board \<and> \<not> is_stalemate R Board \<and> \<not> is_insufficient_material R Board"
  then have "evaluate_board R Board = material Board"
    by (simp add: evaluate_board_def Board_def)
  then show "evaluate_board R Board = 7800"
    by (simp add: material_Board)
qed

theorem evaluate_board_adds_both_colors_witness:
  "\<not> is_checkmate toy_rules Board \<and> \<not> is_stalemate toy_rules Board
   \<and> \<not> is_insufficient_material toy_rules Board
   \<and> evaluate_board toy_rules Board = 7800
   \<and> turn (toy_push Board e2e3) = BLACK
   \<and> evaluate_board toy_rules (toy_push Board e2e3) = - 7800"
proof -
  have black: "turn (toy_push Board e2e3) = BLACK"
    "evaluate_board toy_rules (toy_push Board e2e3) = - 7800"
    by code_simp+
  show ?thesis
    using evaluate_board_adds_both_colors [of toy_rules Board] black
    by (simp add: toy_rules_def)
qed

section \<open>Moves in Analysis and Play mode\<close>

lemma get_ai_move_keeps_position:
  "board (get_ai_move s) = board s"
  "move_history (get_ai_move s) = move_history s"
  "position_history (get_ai_move s) = position_history s"
  by (simp_all add: get_ai_move_def Let_def)

lemma clear_drag_keeps_position:
  "board (clear_drag s) = board s"
  "move_history (clear_drag s) = move_history s"
  "position_history (clear_drag s) = position_history s"
  by (simp_all add: clear_drag_def)

lemma make_move_legal:
  assumes "m \<in> set (legal_moves R (board s))"
  shows "snd (make_move R s m) = True"
    and "board (fst (make_move R s m)) = push R (board s) m"
    and "move_history (fst (make_move R s m)) = move_history s @ [m]"
    and "position_history (fst (make_move R s m)) = position_history s @ [fen R (board s)]"
  using assms by (simp_all add: make_move_def get_stockfish_comparison_def Let_def)

lemma make_move_illegal:
  assumes "m \<notin> set (legal_moves R (board s))"
  shows "make_move R s m = (s, False)"
  using assms by (simp add: make_move_def)

lemma mouse_button_up_legal:
  assumes legal: "chess_Move src dst \<in> set (legal_moves R (board s))"
    and mode: "current_mode s \<noteq> SETUP_MODE"
    and drag: "dragging s" "selected_piece s = Some src"
    and pos: "get_square_from_pos pos = Some dst"
  shows "\<exists>s'. mouse_button_up R s 1 pos = Inr s'
           \<and> board s' = push R (board s) (chess_Move src dst)
           \<and> move_history s' = move_history s @ [chess_Move src dst]
           \<and> position_history s' = position_history s @ [fen R (board s)]"
proof -
  let ?m = "chess_Move src dst"
  obtain s1 ok where mm: "make_move R s ?m = (s1, ok)"
    by (cases "make_move R s ?m")
  from make_move_legal [OF legal] mm
  have ok: "ok" and s1: "board s1 = push R (board s) ?m"
    "move_history s1 = move_history s @ [?m]"
    "position_history s1 = position_history s @ [fen R (board s)]"
    by simp_all
  have valid: "is_valid_move R s (Some src) dst"
    using legal mode by (simp add: is_valid_move_def)
  have "mouse_button_up R s 1 pos = Inr (clear_drag s1)
      \<or> mouse_button_up R s 1 pos = Inr (clear_drag (get_ai_move s1))"
    using valid mode drag pos mm ok by (simp add: mouse_button_up_def)
  then show ?thesis
    using s1 by (auto simp: clear_drag_keeps_position get_ai_move_keeps_position)
qed

lemma mouse_button_up_illegal:
  assumes illegal: "chess_Move src dst \<notin> set (legal_moves R (board s))"
    and mode: "current_mode s \<noteq> SETUP_MODE"
    and drag: "dragging s" "selected_piece s = Some src"
    and pos: "get_square_from_pos pos = Some dst"
  shows "mouse_button_up R s 1 pos = Inr (clear_drag s)"
  using assms by (simp add: mouse_button_up_def is_valid_move_def)

lemma play_e2_held_facts:
  "current_mode play_e2_held = PLAY_MODE"
  "dragging play_e2_held"
  "selected_piece play_e2_held = Some 12"
  "chess_Move 12 20 \<in> set (legal_moves toy_rules (board play_e2_held))"
  "chess_Move 12 28 \<notin> set (legal_moves toy_rules (board play_e2_held))"
  "move_history play_e2_held = []"
  "turn (push toy_rules (board play_e2_held) (chess_Move 12 20)) = BLACK"
  by code_simp+

lemma square_of_pos:
  "get_square_from_pos (365, 445) = Some 20"
  "get_square_from_pos (365, 365) = Some 28"
  "get_square_from_pos (365, 605) = Some 4"
  "get_square_from_pos (285, 45) = Some 59"
  by code_simp+

text \<open>
  C1.  In Analysis or Play mode, when the rules library lists the move from \<open>src\<close> to \<open>dst\<close>
  among the legal moves of the board, \<open>is_valid_move\<close> accepts the pair and \<open>make_move\<close>
  returns \<open>True\<close>; the move history grows by exactly that one record, the FEN of the prior
  board is appended to the position history, and the new board is the library's push of
  the move on the prior board.  The same holds of the whole release of a drag from \<open>src\<close>
  onto \<open>dst\<close>, which raises nothing.
\<close>

theorem legal_move_is_applied:
  assumes legal: "chess_Move src dst \<in> set (legal_moves R (board s))"
    and mode: "current_mode s = ANALYSIS_MODE \<or> current_mode s = PLAY_MODE"
  shows "is_valid_move R s (Some src) dst
     \<and> snd (make_move R s (chess_Move src dst)) = True
     \<and> length (move_history (fst (make_move R s (chess_Move src dst)))) = length (move_history s) + 1
     \<and> move_history (fst (make_move R s (chess_Move src dst))) = move_history s @ [chess_Move src dst]
     \<and> position_history (fst (make_move R s (chess_Move src dst))) = position_history s @ [fen R (board s)]
     \<and> board (fst (make_move R s (chess_Move src dst))) = push R (board s) (chess_Move src dst)
     \<and> (dragging s \<and> selected_piece s = Some src \<and> get_square_from_pos pos = Some dst \<longrightarrow>
          (\<exists>s'. mouse_button_up R s 1 pos = Inr s'
             \<and> board s' = push R (board s) (chess_Move src dst)
             \<and> move_history s' = move_history s @ [chess_Move src dst]
             \<and> position_history s' = position_history s @ [fen R (board s)]))"
proof -
  from mode have nosetup: "current_mode s \<noteq> SETUP_MODE"
    by auto
  have "is_valid_move R s (Some src) dst"
    using legal nosetup by (simp add: is_valid_move_def)
  moreover have "dragging s \<and> selected_piece s = Some src \<and> get_square_from_pos pos = Some dst \<longrightarrow>
          (\<exists>s'. mouse_button_up R s 1 pos = Inr s'
             \<and> board s' = push R (board s) (chess_Move src dst)
             \<and> move_history s' = move_history s @ [chess_Move src dst]
             \<and> position_history s' = position_history s @ [fen R (board s)])"
    using mouse_button_up_legal [OF legal nosetup] by blast
  ultimately show ?thesis
    using make_move_legal [OF legal] by simp
qed

theorem legal_move_is_applied_witness:
  "chess_Move 12 20 \<in> set (legal_moves toy_rules (board play_e2_held))
   \<and> current_mode play_e2_held = PLAY_MODE
   \<and> dragging play_e2_held \<and> selected_piece play_e2_held = Some 12
   \<and> get_square_from_pos (365, 445) = Some 20
   \<and> snd (make_move toy_rules play_e2_held (chess_Move 12 20)) = True
   \<and> length (move_history (fst (make_move toy_rules play_e2_held (chess_Move 12 20)))) = 1
   \<and> turn (board (fst (make_move toy_rules play_e2_held (chess_Move 12 20)))) = BLACK
   \<and> \<not> isl (mouse_button_up toy_rules play_e2_held 1 (365, 445))
   \<and> turn (board (projr (mouse_button_up toy_rules play_e2_held 1 (365, 445)))) = BLACK
   \<and> length (move_history (projr (mouse_button_up toy_rules play_e2_held 1 (365, 445)))) = 1"
proof -
  have mode: "current_mode play_e2_held = ANALYSIS_MODE \<or> current_mode play_e2_held = PLAY_MODE"
    by (simp add: play_e2_held_facts)
  note applied = legal_move_is_applied [OF play_e2_held_facts(4) mode, where pos = "(365, 445)"]
  from applied obtain s' where
    "mouse_button_up toy_rules play_e2_held 1 (365, 445) = Inr s'"
    "board s' = push toy_rules (board play_e2_held) (chess_Move 12 20)"
    "move_history s' = move_history play_e2_held @ [chess_Move 12 20]"
    using play_e2_held_facts square_of_pos by blast
  then show ?thesis
    using applied by (simp add: play_e2_held_facts square_of_pos)
qed

text \<open>
  C2.  When the rules library does not list the move among the legal moves of the board,
  \<open>make_move\<close> returns \<open>False\<close> and the whole state, with the board, the move history and
  the position history, is as before; in Analysis or Play mode \<open>is_valid_move\<close> rejects
  the pair, and the release of a drag from \<open>src\<close> onto \<open>dst\<close> raises nothing and only drops
  the selection.
\<close>

theorem illegal_move_is_rejected:
  "(m \<notin> set (legal_moves R (board s)) \<longrightarrow> make_move R s m = (s, False))
   \<and> (chess_Move src dst \<notin> set (legal_moves R (board s)) \<and> current_mode s \<noteq> SETUP_MODE \<longrightarrow>
        \<not> is_valid_move R s (Some src) dst
        \<and> (dragging s \<and> selected_piece s = Some src \<and> get_square_from_pos pos = Some dst \<longrightarrow>
             mouse_button_up R s 1 pos = Inr (clear_drag s)
             \<and> board (clear_drag s) = board s
             \<and> move_history (clear_drag s) = move_history s
             \<and> position_history (clear_drag s) = position_history s))"
  using make_move_illegal [of m R s] mouse_button_up_illegal [of src dst R s pos]
  by (simp add: is_valid_move_def clear_drag_keeps_position)

theorem illegal_move_is_rejected_witness:
  "chess_Move 12 28 \<notin> set (legal_moves toy_rules (board play_e2_held))
   \<and> current_mode play_e2_held \<noteq> SETUP_MODE
   \<and> dragging play_e2_held \<and> selected_piece play_e2_held = Some 12
   \<and> get_square_from_pos (365, 365) = Some 28
   \<and> make_move toy_rules play_e2_held (chess_Move 12 28) = (play_e2_held, False)
   \<and> \<not> is_valid_move toy_rules play_e2_held (Some 12) 28
   \<and> mouse_button_up toy_rules play_e2_held 1 (365, 365) = Inr (clear_drag play_e2_held)
   \<and> board (clear_drag play_e2_held) = board play_e2_held"
  using illegal_move_is_rejected [of "chess_Move 12 28" toy_rules play_e2_held 12 28 "(365, 365)"]
  by (simp add: play_e2_held_facts square_of_pos)

section \<open>Placements in Setup mode\<close>

lemma setup_drop_on_king:
  assumes mode: "current_mode s = SETUP_MODE"
    and king: "piece_at (board s) dst = Some (Piece KING c)"
  shows "\<not> is_valid_move R s sel dst"
  using assms by (simp add: is_valid_move_def)

lemma setup_drop_elsewhere:
  assumes mode: "current_mode s = SETUP_MODE"
    and noking: "piece_at (board s) dst \<noteq> Some (Piece KING WHITE)" "piece_at (board s) dst \<noteq> Some (Piece KING BLACK)"
  shows "is_valid_move R s sel dst"
proof (cases "piece_at (board s) dst")
  case None
  then show ?thesis using mode by (simp add: is_valid_move_def)
next
  case (Some tp)
  obtain pt c where tp: "tp = Piece pt c" by (cases tp)
  have "pt \<noteq> KING" using noking Some tp by (cases c) auto
  then show ?thesis using mode Some tp by (simp add: is_valid_move_def)
qed

lemma setup_release_places:
  assumes mode: "current_mode s = SETUP_MODE"
    and drag: "dragging s" "selected_piece s = Some src"
    and pos: "get_square_from_pos pos = Some dst"
    and valid: "is_valid_move R s (Some src) dst"
  shows "mouse_button_up R s 1 pos =
     Inr (clear_drag (s\<lparr>board := (board s)\<lparr>piece_map := (piece_map (board s))(src := None, dst := piece_map (board s) src),
                                      move_stack := []\<rparr>\<rparr>))"
  using assms by (simp add: mouse_button_up_def remove_piece_at_def set_piece_at_def)

lemma release_rejected:
  assumes drag: "dragging s" "selected_piece s = Some src"
    and pos: "get_square_from_pos pos = Some dst"
    and invalid: "\<not> is_valid_move R s (Some src) dst"
  shows "mouse_button_up R s 1 pos = Inr (clear_drag s)"
  using assms by (simp add: mouse_button_up_def)

lemma setup_e2_held_facts:
  "current_mode setup_e2_held = SETUP_MODE"
  "dragging setup_e2_held"
  "selected_piece setup_e2_held = Some 12"
  "piece_at (board setup_e2_held) 4 = Some (Piece KING WHITE)"
  "piece_at (board setup_e2_held) 12 = Some (Piece PAWN WHITE)"
  "piece_at (board setup_e2_held) 59 = Some (Piece QUEEN BLACK)"
  by code_simp+

text \<open>
  C3.  In Setup mode, with the piece of square \<open>src\<close> held and released over square \<open>dst\<close>:
  when \<open>dst\<close> holds a king of either colour the action is rejected and the board is left as
  it was; when \<open>src\<close> holds a piece and \<open>dst\<close> holds no king the action is accepted, the
  piece of \<open>src\<close> then stands on \<open>dst\<close> in place of whatever stood there, \<open>src\<close> is empty
  (unless it is \<open>dst\<close> itself) and every other square is as before.
\<close>

theorem setup_action:
  assumes mode: "current_mode s = SETUP_MODE"
    and drag: "dragging s" "selected_piece s = Some src"
    and pos: "get_square_from_pos pos = Some dst"
  shows "(piece_at (board s) dst = Some (Piece KING c) \<longrightarrow>
            \<not> is_valid_move R s (Some src) dst
            \<and> (\<exists>s'. mouse_button_up R s 1 pos = Inr s' \<and> board s' = board s))
       \<and> (piece_at (board s) src = Some p
            \<and> piece_at (board s) dst \<noteq> Some (Piece KING WHITE)
            \<and> piece_at (board s) dst \<noteq> Some (Piece KING BLACK) \<longrightarrow>
            is_valid_move R s (Some src) dst
            \<and> (\<exists>s'. mouse_button_up R s 1 pos = Inr s'
                 \<and> piece_map (board s') = (piece_map (board s))(src := None, dst := Some p)
                 \<and> piece_at (board s') dst = Some p
                 \<and> (src \<noteq> dst \<longrightarrow> piece_at (board s') src = None)
                 \<and> (\<forall>sq. sq \<noteq> src \<and> sq \<noteq> dst \<longrightarrow> piece_at (board s') sq = piece_at (board s) sq)))"
proof (intro conjI impI)
  assume king: "piece_at (board s) dst = Some (Piece KING c)"
  show invalid: "\<not> is_valid_move R s (Some src) dst"
    using setup_drop_on_king [OF mode king] .
  show "\<exists>s'. mouse_button_up R s 1 pos = Inr s' \<and> board s' = board s"
    using release_rejected [OF drag pos invalid] by (simp add: clear_drag_def)
next
  assume free: "piece_at (board s) src = Some p
            \<and> piece_at (board s) dst \<noteq> Some (Piece KING WHITE)
            \<and> piece_at (board s) dst \<noteq> Some (Piece KING BLACK)"
  then show valid: "is_valid_move R s (Some src) dst"
    using setup_drop_elsewhere [OF mode] by blast
  have p: "piece_map (board s) src = Some p"
    using free by (simp add: piece_at_def)
  show "\<exists>s'. mouse_button_up R s 1 pos = Inr s'
                 \<and> piece_map (board s') = (piece_map (board s))(src := None, dst := Some p)
                 \<and> piece_at (board s') dst = Some p
                 \<and> (src \<noteq> dst \<longrightarrow> piece_at (board s') src = None)
                 \<and> (\<forall>sq. sq \<noteq> src \<and> sq \<noteq> dst \<longrightarrow> piece_at (board s') sq = piece_at (board s) sq)"
    using setup_release_places [OF mode drag pos valid] p
    by (simp add: clear_drag_def piece_at_def)
qed

theorem setup_action_witness:
  "current_mode setup_e2_held = SETUP_MODE
   \<and> dragging setup_e2_held \<and> selected_piece setup_e2_held = Some 12
   \<and> get_square_from_pos (365, 605) = Some 4
   \<and> piece_at (board setup_e2_held) 4 = Some (Piece KING WHITE)
   \<and> \<not> is_valid_move toy_rules setup_e2_held (Some 12) 4
   \<and> \<not> isl (mouse_button_up toy_rules setup_e2_held 1 (365, 605))
   \<and> board (projr (mouse_button_up toy_rules setup_e2_held 1 (365, 605))) = board setup_e2_held
   \<and> get_square_from_pos (285, 45) = Some 59
   \<and> piece_at (board setup_e2_held) 12 = Some (Piece PAWN WHITE)
   \<and> piece_at (board setup_e2_held) 59 = Some (Piece QUEEN BLACK)
   \<and> is_valid_move toy_rules setup_e2_held (Some 12) 59
   \<and> \<not> isl (mouse_button_up toy_rules setup_e2_held 1 (285, 45))
   \<and> piece_at (board (projr (mouse_button_up toy_rules setup_e2_held 1 (285, 45)))) 59 = Some (Piece PAWN WHITE)
   \<and> piece_at (board (projr (mouse_button_up toy_rules setup_e2_held 1 (285, 45)))) 12 = None"
proof -
  note h = setup_e2_held_facts(1-3)
  note on_king = setup_action [OF h square_of_pos(3), where c = WHITE and R = toy_rules]
  note elsewhere = setup_action [OF h square_of_pos(4), where p = "Piece PAWN WHITE" and R = toy_rules]
  from on_king obtain s1 where
    "mouse_button_up toy_rules setup_e2_held 1 (365, 605) = Inr s1" "board s1 = board setup_e2_held"
    using setup_e2_held_facts by blast
  moreover from elsewhere obtain s2 where
    "mouse_button_up toy_rules setup_e2_held 1 (285, 45) = Inr s2"
    "piece_at (board s2) 59 = Some (Piece PAWN WHITE)" "piece_at (board s2) 12 = None"
    using setup_e2_held_facts by auto
  ultimately show ?thesis
    using on_king elsewhere by (simp add: setup_e2_held_facts square_of_pos)
qed

section \<open>An empty source square in Setup mode\<close>

lemma board_pos_left_of_panel:
  assumes "get_square_from_pos pos = Some sq"
  shows "fst pos < CONTROL_PANEL_X"
  using assms
  by (simp add: get_square_from_pos_def CONTROL_PANEL_X_def BOARD_SIZE_def BOARD_OFFSET_X_def
      Let_def split: if_splits)

lemma setup_press_on_empty:
  assumes "current_mode s = SETUP_MODE" "get_square_from_pos pos = Some src"
    "piece_at (board s) src = None"
  shows "mouse_button_down R s 1 pos = s"
  using assms board_pos_left_of_panel [OF assms(2)]
  by (simp add: mouse_button_down_def)

lemma release_without_drag:
  assumes "\<not> dragging s"
  shows "mouse_button_up R s btn pos = Inr s"
  using assms by (simp add: mouse_button_up_def)

text \<open>
  C4 as stated does not hold.  In Setup mode \<open>is_valid_move\<close>, in either class, never
  looks at the source square: with the empty square e3 as source and the pawn on d2 as
  destination it answers \<open>True\<close>.  And an action with an empty source can be carried out:
  in \<open>held_square_emptied\<close> the held square e3 is empty, and the release over d2 takes
  the pawn off d2.
\<close>

theorem setup_empty_source_counterexample:
  "current_mode (init False) = SETUP_MODE
   \<and> piece_at (board (init False)) 20 = None
   \<and> piece_at (board (init False)) 11 = Some (Piece PAWN WHITE)
   \<and> is_valid_move toy_rules (init False) (Some 20) 11
   \<and> ChessGUI_is_valid_move toy_rules gui_start 20 11
   \<and> current_mode held_square_emptied = SETUP_MODE
   \<and> dragging held_square_emptied
   \<and> selected_piece held_square_emptied = Some 20
   \<and> piece_at (board held_square_emptied) 20 = None
   \<and> piece_at (board held_square_emptied) 11 = Some (Piece PAWN WHITE)
   \<and> get_square_from_pos (285, 525) = Some 11
   \<and> \<not> isl (mouse_button_up toy_rules held_square_emptied 1 (285, 525))
   \<and> piece_at (board (projr (mouse_button_up toy_rules held_square_emptied 1 (285, 525)))) 11 = None"
  by code_simp

text \<open>
  C4, amended.  In Setup mode a press on an empty square selects nothing and starts no
  drag: the state is as before the press.  When no drag is under way at that press, the
  release that follows leaves the state, and so the board, as it was.
\<close>

theorem setup_empty_source:
  assumes "current_mode s = SETUP_MODE"
    and "get_square_from_pos pos = Some src"
    and "piece_at (board s) src = None"
  shows "mouse_button_down R s 1 pos = s
     \<and> (\<not> dragging s \<longrightarrow> mouse_button_up R (mouse_button_down R s 1 pos) 1 pos' = Inr s)"
  using setup_press_on_empty [OF assms] release_without_drag [of s R 1 pos']
  by simp

theorem setup_empty_source_witness:
  "current_mode (init False) = SETUP_MODE
   \<and> get_square_from_pos (365, 445) = Some 20
   \<and> piece_at (board (init False)) 20 = None
   \<and> \<not> dragging (init False)
   \<and> mouse_button_down toy_rules (init False) 1 (365, 445) = init False
   \<and> mouse_button_up toy_rules (mouse_button_down toy_rules (init False) 1 (365, 445)) 1 (285, 525)
       = Inr (init False)"
proof -
  have h: "current_mode (init False) = SETUP_MODE" "get_square_from_pos (365, 445) = Some 20"
    "piece_at (board (init False)) 20 = None" "\<not> dragging (init False)"
    by code_simp+
  note w = setup_empty_source [OF h(1-3), of toy_rules "(285, 525)"]
  from w have a: "mouse_button_down toy_rules (init False) 1 (365, 445) = init False"
    by (rule conjunct1)
  from w h(4) have b:
    "mouse_button_up toy_rules (mouse_button_down toy_rules (init False) 1 (365, 445)) 1 (285, 525)
       = Inr (init False)"
    by blast
  show ?thesis
    by (intro conjI h a b)
qed

section \<open>Mode buttons\<close>

lemma mode_buttons:
  assumes "(b, r) \<in> set buttons" "mode_of_button b = Some m"
  shows "(b, r, m) = (setup_mode, (710, 40, 80, 25), SETUP_MODE)
       \<or> (b, r, m) = (analysis_mode, (795, 40, 80, 25), ANALYSIS_MODE)
       \<or> (b, r, m) = (play_mode, (880, 40, 80, 25), PLAY_MODE)"
  using assms
  by (cases b) (simp_all add: buttons_def CONTROL_PANEL_X_def BOARD_SIZE_def BOARD_OFFSET_X_def)

lemma buttons_split:
  "buttons = (setup_mode, (710, 40, 80, 25)) # (analysis_mode, (795, 40, 80, 25))
      # (play_mode, (880, 40, 80, 25)) # drop 3 buttons"
  by (simp add: buttons_def CONTROL_PANEL_X_def BOARD_SIZE_def BOARD_OFFSET_X_def)

lemma find_mode_button:
  "find (\<lambda>(button_name, button_rect). collidepoint button_rect pos) buttons =
     (if collidepoint (710, 40, 80, 25) pos then Some (setup_mode, (710, 40, 80, 25))
      else if collidepoint (795, 40, 80, 25) pos then Some (analysis_mode, (795, 40, 80, 25))
      else if collidepoint (880, 40, 80, 25) pos then Some (play_mode, (880, 40, 80, 25))
      else find (\<lambda>(button_name, button_rect). collidepoint button_rect pos) (drop 3 buttons))"
  by (subst buttons_split) simp

lemma mode_button_found:
  assumes "(b, r) \<in> set buttons" "mode_of_button b = Some m" "collidepoint r pos"
  shows "find (\<lambda>(button_name, button_rect). collidepoint button_rect pos) buttons = Some (b, r)"
    and "CONTROL_PANEL_X \<le> fst pos"
proof -
  have panel: "CONTROL_PANEL_X = 700"
    by (simp add: CONTROL_PANEL_X_def BOARD_SIZE_def BOARD_OFFSET_X_def)
  from mode_buttons [OF assms(1,2)]
  consider (on_setup) "b = setup_mode" "r = (710, 40, 80, 25)"
    | (on_analysis) "b = analysis_mode" "r = (795, 40, 80, 25)"
    | (on_play) "b = play_mode" "r = (880, 40, 80, 25)"
    by auto
  then have "find (\<lambda>(button_name, button_rect). collidepoint button_rect pos) buttons = Some (b, r)
      \<and> 700 \<le> fst pos"
  proof cases
    case on_setup
    with assms(3) show ?thesis
      unfolding find_mode_button by (simp add: collidepoint_def)
  next
    case on_analysis
    with assms(3) show ?thesis
      unfolding find_mode_button by (simp add: collidepoint_def)
  next
    case on_play
    with assms(3) show ?thesis
      unfolding find_mode_button by (simp add: collidepoint_def)
  qed
  then show "find (\<lambda>(button_name, button_rect). collidepoint button_rect pos) buttons = Some (b, r)"
    and "CONTROL_PANEL_X \<le> fst pos"
    by (simp_all add: panel)
qed

text \<open>
  C5, amended.  A click inside the rectangle of one of the three mode buttons sets
  \<open>current_mode\<close> to that mode and empties \<open>valid_moves\<close>, the highlighted destinations, and
  changes nothing else: the board is as before, and so are \<open>selected_piece\<close>, \<open>dragging\<close>
  and \<open>ai_suggested_square\<close>.
\<close>

theorem mode_button_click:
  assumes "(b, r) \<in> set buttons" "mode_of_button b = Some m" "collidepoint r pos"
  shows "handle_button_click s pos = (s\<lparr>current_mode := m, valid_moves := {}\<rparr>, True)
     \<and> mouse_button_down R s 1 pos = s\<lparr>current_mode := m, valid_moves := {}\<rparr>
     \<and> board (fst (handle_button_click s pos)) = board s
     \<and> valid_moves (fst (handle_button_click s pos)) = {}
     \<and> selected_piece (fst (handle_button_click s pos)) = selected_piece s
     \<and> dragging (fst (handle_button_click s pos)) = dragging s
     \<and> ai_suggested_square (fst (handle_button_click s pos)) = ai_suggested_square s"
proof -
  have click: "handle_button_click s pos = (s\<lparr>current_mode := m, valid_moves := {}\<rparr>, True)"
    using mode_button_found(1) [OF assms] assms(2) by (simp add: handle_button_click_def)
  then show ?thesis
    using mode_button_found(2) [OF assms] by (simp add: mouse_button_down_def)
qed

text \<open>
  C5 as stated does not hold: a mode transition clears neither the selection nor the
  highlight of the engine's suggestion.  With the pawn on e2 held in Setup mode, a click on
  the Analysis button leaves \<open>selected_piece\<close> and \<open>dragging\<close> set; and after a best-move
  request has been answered, the same click leaves \<open>ai_suggested_square\<close> set.
\<close>

theorem mode_button_click_counterexample:
  "current_mode setup_e2_held = SETUP_MODE
   \<and> current_mode (mouse_button_down toy_rules setup_e2_held 1 (800, 50)) = ANALYSIS_MODE
   \<and> selected_piece (mouse_button_down toy_rules setup_e2_held 1 (800, 50)) = Some 12
   \<and> dragging (mouse_button_down toy_rules setup_e2_held 1 (800, 50))
   \<and> \<not> isl (run toy_rules toy_stockfish best_move_then_analysis (init True))
   \<and> current_mode (projr (run toy_rules toy_stockfish best_move_then_analysis (init True))) = ANALYSIS_MODE
   \<and> ai_suggested_square (projr (run toy_rules toy_stockfish best_move_then_analysis (init True))) = Some 20"
  by code_simp

theorem mode_button_click_witness:
  "(analysis_mode, (795, 40, 80, 25)) \<in> set buttons
   \<and> mode_of_button analysis_mode = Some ANALYSIS_MODE
   \<and> collidepoint (795, 40, 80, 25) (800, 50)
   \<and> handle_button_click setup_e2_held (800, 50)
        = (setup_e2_held\<lparr>current_mode := ANALYSIS_MODE, valid_moves := {}\<rparr>, True)
   \<and> board (fst (handle_button_click setup_e2_held (800, 50))) = board setup_e2_held
   \<and> selected_piece (fst (handle_button_click setup_e2_held (800, 50))) = selected_piece setup_e2_held"
proof -
  have h: "(analysis_mode, (795, 40, 80, 25)) \<in> set buttons"
    "mode_of_button analysis_mode = Some ANALYSIS_MODE"
    "collidepoint (795, 40, 80, 25) (800, 50)"
    by code_simp+
  show ?thesis
    using mode_button_click [OF h, of setup_e2_held toy_rules] h by simp
qed

section \<open>The move-rank comparison\<close>










section \<open>Engine requests\<close>

lemma get_ai_move_starts_worker:
  assumes "stockfish_ai s"
  shows "threads (get_ai_move s) = threads s @ [ai_worker_started]"
    and "\<not> ai_thinking (get_ai_move s)"
    and "last_ai_move (get_ai_move s) = last_ai_move s"
    and "last_ai_eval (get_ai_move s) = last_ai_eval s"
  using assms by (simp_all add: get_ai_move_def Let_def)

lemma ai_worker_publish_no_answer:
  "ai_worker_publish R (Inr []) s =
     s\<lparr>last_ai_move := Some ''No moves'', last_ai_eval := None, ai_thinking := False\<rparr>"
  "ai_worker_publish R (Inl e) s =
     s\<lparr>last_ai_move := Some ''AI Error'', last_ai_eval := None, ai_thinking := False\<rparr>"
  by (simp_all add: ai_worker_publish_def)

lemma run_thread_ai_waiting:
  assumes "i < length (threads s)" "threads s ! i = ai_worker_waiting f"
  shows "run_thread R sf i s = ai_worker_publish R (sf f 12) (s\<lparr>threads := remove_nth i (threads s)\<rparr>)"
  using assms by (simp add: run_thread_def)

text \<open>
  C8.  Without an engine, \<open>get_ai_move\<close> publishes the text \<open>No AI available\<close> in place of
  a suggestion, with no evaluation, and starts no worker.  With an engine it only starts a
  worker and returns: it does not wait for the engine's answer.  When the engine answers
  with no candidate the worker publishes \<open>No moves\<close>, and when the engine call raises it
  publishes \<open>AI Error\<close>, each with no evaluation; the board and the move history are as
  before, and the worker ends normally.
\<close>

theorem engine_unavailable_sentinel:
  "(\<not> stockfish_ai s \<longrightarrow>
      get_ai_move s = s\<lparr>last_ai_move := Some ''No AI available'', last_ai_eval := None\<rparr>)
   \<and> (stockfish_ai s \<longrightarrow>
        threads (get_ai_move s) = threads s @ [ai_worker_started]
        \<and> board (get_ai_move s) = board s
        \<and> last_ai_move (get_ai_move s) = last_ai_move s
        \<and> last_ai_eval (get_ai_move s) = last_ai_eval s)
   \<and> ai_worker_publish R (Inr []) s =
        s\<lparr>last_ai_move := Some ''No moves'', last_ai_eval := None, ai_thinking := False\<rparr>
   \<and> ai_worker_publish R (Inl e) s =
        s\<lparr>last_ai_move := Some ''AI Error'', last_ai_eval := None, ai_thinking := False\<rparr>
   \<and> (i < length (threads s) \<and> threads s ! i = ai_worker_waiting f
        \<and> (sf f 12 = Inr [] \<or> sf f 12 = Inl e) \<longrightarrow>
          (last_ai_move (run_thread R sf i s) = Some ''No moves''
             \<or> last_ai_move (run_thread R sf i s) = Some ''AI Error'')
          \<and> last_ai_eval (run_thread R sf i s) = None
          \<and> board (run_thread R sf i s) = board s
          \<and> move_history (run_thread R sf i s) = move_history s
          \<and> threads (run_thread R sf i s) = remove_nth i (threads s))"
proof (intro conjI impI)
  assume "\<not> stockfish_ai s"
  then show "get_ai_move s = s\<lparr>last_ai_move := Some ''No AI available'', last_ai_eval := None\<rparr>"
    by (simp add: get_ai_move_def)
next
  assume engine: "stockfish_ai s"
  show "threads (get_ai_move s) = threads s @ [ai_worker_started]"
    and "last_ai_move (get_ai_move s) = last_ai_move s"
    and "last_ai_eval (get_ai_move s) = last_ai_eval s"
    using get_ai_move_starts_worker [OF engine] by simp_all
  show "board (get_ai_move s) = board s"
    by (simp add: get_ai_move_keeps_position)
next
  show "ai_worker_publish R (Inr []) s =
        s\<lparr>last_ai_move := Some ''No moves'', last_ai_eval := None, ai_thinking := False\<rparr>"
    by (simp add: ai_worker_publish_no_answer)
next
  show "ai_worker_publish R (Inl e) s =
        s\<lparr>last_ai_move := Some ''AI Error'', last_ai_eval := None, ai_thinking := False\<rparr>"
    by (simp add: ai_worker_publish_no_answer)
next
  assume waiting: "i < length (threads s) \<and> threads s ! i = ai_worker_waiting f
        \<and> (sf f 12 = Inr [] \<or> sf f 12 = Inl e)"
  then have step: "run_thread R sf i s
      = ai_worker_publish R (sf f 12) (s\<lparr>threads := remove_nth i (threads s)\<rparr>)"
    by (simp add: run_thread_ai_waiting)
  from waiting have "sf f 12 = Inr [] \<or> sf f 12 = Inl e"
    by simp
  then show "last_ai_move (run_thread R sf i s) = Some ''No moves''
             \<or> last_ai_move (run_thread R sf i s) = Some ''AI Error''"
    and "last_ai_eval (run_thread R sf i s) = None"
    and "board (run_thread R sf i s) = board s"
    and "move_history (run_thread R sf i s) = move_history s"
    and "threads (run_thread R sf i s) = remove_nth i (threads s)"
    unfolding step by (auto simp: ai_worker_publish_no_answer)
qed

lemma waiting_on_empty_board_facts:
  "\<not> isl (run toy_rules toy_stockfish no_moves_run (init True))"
  "(0::nat) < length (threads waiting_on_empty_board)"
  "threads waiting_on_empty_board ! 0 = ai_worker_waiting (toy_fen Board_empty)"
  "toy_stockfish (toy_fen Board_empty) 12 = Inr []"
  "\<not> stockfish_ai (init False)"
  "stockfish_ai (init True)"
  by code_simp+

theorem engine_unavailable_sentinel_witness:
  "\<not> stockfish_ai (init False)
   \<and> last_ai_move (get_ai_move (init False)) = Some ''No AI available''
   \<and> last_ai_eval (get_ai_move (init False)) = None
   \<and> stockfish_ai (init True)
   \<and> threads (get_ai_move (init True)) = [ai_worker_started]
   \<and> 0 < length (threads waiting_on_empty_board)
   \<and> threads waiting_on_empty_board ! 0 = ai_worker_waiting (toy_fen Board_empty)
   \<and> toy_stockfish (toy_fen Board_empty) 12 = Inr []
   \<and> last_ai_move (run_thread toy_rules toy_stockfish 0 waiting_on_empty_board) = Some ''No moves''
   \<and> last_ai_eval (run_thread toy_rules toy_stockfish 0 waiting_on_empty_board) = None"
proof -
  note off = engine_unavailable_sentinel [of "init False" toy_rules EngineError 0 "[]" toy_stockfish]
  note on = engine_unavailable_sentinel [of "init True" toy_rules EngineError 0 "[]" toy_stockfish]
  note waiting = engine_unavailable_sentinel
    [of waiting_on_empty_board toy_rules EngineError 0 "toy_fen Board_empty" toy_stockfish]
  from off waiting_on_empty_board_facts(5)
  have a: "last_ai_move (get_ai_move (init False)) = Some ''No AI available''"
    "last_ai_eval (get_ai_move (init False)) = None"
    by simp_all
  from on waiting_on_empty_board_facts(6)
  have b: "threads (get_ai_move (init True)) = [ai_worker_started]"
    by (simp add: init_def)
  from waiting waiting_on_empty_board_facts(2-4)
  have c: "last_ai_move (run_thread toy_rules toy_stockfish 0 waiting_on_empty_board) = Some ''No moves''
             \<or> last_ai_move (run_thread toy_rules toy_stockfish 0 waiting_on_empty_board) = Some ''AI Error''"
    "last_ai_eval (run_thread toy_rules toy_stockfish 0 waiting_on_empty_board) = None"
    by blast+
  have d: "last_ai_move (run_thread toy_rules toy_stockfish 0 waiting_on_empty_board) = Some ''No moves''"
    by code_simp
  show ?thesis
    using a b c(2) d waiting_on_empty_board_facts by simp
qed

text \<open>
  C6 fails on the program: nothing compares a worker's result with the position current
  when it arrives.  In \<open>stale_run\<close>, before the last step the second request is out with
  the FEN of the current board, the first request carries the FEN of the starting
  position, and no suggestion is published; the last step delivers the first request's
  answer, and the worker publishes it as the suggestion although the board has moved on.
\<close>

theorem stale_result_is_applied:
  "\<not> isl (run toy_rules toy_stockfish stale_run (init True))
   \<and> threads (projr (run toy_rules toy_stockfish (butlast stale_run) (init True)))
        = [ai_worker_waiting (toy_fen Board), comparison_worker_started ''e2e3'',
           ai_worker_waiting (toy_fen (toy_push Board e2e3))]
   \<and> fen toy_rules (board (projr (run toy_rules toy_stockfish (butlast stale_run) (init True))))
        = toy_fen (toy_push Board e2e3)
   \<and> toy_fen Board \<noteq> toy_fen (toy_push Board e2e3)
   \<and> last_ai_move (projr (run toy_rules toy_stockfish (butlast stale_run) (init True))) = None
   \<and> last_ai_move (projr (run toy_rules toy_stockfish stale_run (init True))) = Some ''e2e3''
   \<and> last_ai_eval (projr (run toy_rules toy_stockfish stale_run (init True))) = Some (1 / 4)
   \<and> ai_suggested_square (projr (run toy_rules toy_stockfish stale_run (init True))) = Some 20
   \<and> threads (projr (run toy_rules toy_stockfish stale_run (init True)))
        = [comparison_worker_started ''e2e3'', ai_worker_waiting (toy_fen (toy_push Board e2e3))]
   \<and> fen toy_rules (board (projr (run toy_rules toy_stockfish stale_run (init True))))
        = toy_fen (toy_push Board e2e3)"
  by code_simp

text \<open>
  In Play mode against the engine the stale answer is even played: in \<open>stale_play_run\<close> the
  move d7-d6, computed for the position after e2-e3, is pushed on the board reached two
  moves later, while the second request for that board is still out.
\<close>

lemma stale_move_is_played:
  "\<not> isl (run toy_rules toy_stockfish stale_play_run (init True))
   \<and> move_history (projr (run toy_rules toy_stockfish (butlast stale_play_run) (init True)))
        = [chess_Move 12 20, chess_Move 48 40, chess_Move 11 19]
   \<and> threads (projr (run toy_rules toy_stockfish (butlast stale_play_run) (init True))) ! 1
        = ai_worker_waiting (toy_fen (toy_push Board e2e3))
   \<and> threads (projr (run toy_rules toy_stockfish (butlast stale_play_run) (init True))) ! 4
        = ai_worker_waiting (fen toy_rules (board (projr (run toy_rules toy_stockfish (butlast stale_play_run) (init True)))))
   \<and> fen toy_rules (board (projr (run toy_rules toy_stockfish (butlast stale_play_run) (init True))))
        \<noteq> toy_fen (toy_push Board e2e3)
   \<and> move_history (projr (run toy_rules toy_stockfish stale_play_run (init True)))
        = [chess_Move 12 20, chess_Move 48 40, chess_Move 11 19, chess_Move 51 43]
   \<and> last_ai_move (projr (run toy_rules toy_stockfish stale_play_run (init True))) = Some ''d7d6''"
  by code_simp

section \<open>Reset\<close>

text \<open>
  A click on the Reset button puts the starting position on the board and empties both
  histories; the new board has an empty move stack.  The program offers no operation that
  takes a move back.
\<close>

lemma find_reset_button:
  "find (\<lambda>(button_name, button_rect). collidepoint button_rect (830, 280)) buttons
     = Some (reset_position, (820, 270, 100, 25))"
  by code_simp

lemma reset_position_click:
  assumes "castling_rights s reset_position = None"
  shows "handle_button_click s (830, 280) =
     (s\<lparr>board := Board, move_history := [], position_history := [],
        stockfish_comparison := None, last_ai_move := None\<rparr>, True)"
  using assms by (simp add: handle_button_click_def find_reset_button)

lemma reset_position_leaves_nothing_to_undo:
  assumes "castling_rights s reset_position = None"
  shows "move_history (fst (handle_button_click s (830, 280))) = []"
    and "position_history (fst (handle_button_click s (830, 280))) = []"
    and "move_stack (board (fst (handle_button_click s (830, 280)))) = []"
  using reset_position_click [OF assms] by (simp_all add: Board_def)

end
